theory Spec2Isabelle
  imports Main
begin

section \<open>Values, errors and requests\<close>

text \<open>
  The frontend is a set of React components. Each component body is a handful of
  callbacks around three ambient objects: the browser's \<open>localStorage\<close>, the data-fetching
  library's \<open>queryClient\<close> and the generated HTTP client. The callbacks are embedded as
  functions on an explicit \<open>world\<close>; what they do to the user interface, to the query
  cache and to the network is recorded, in call order, as a list of effects.
\<close>

text \<open>JavaScript values that travel in form data and request bodies.\<close>

datatype json = JString string | JBool bool | JNumber int | JUndefined

type_synonym obj = "(string \<times> json) list"

text \<open>
  The \<open>detail\<close> field of an error body is a string or an object. A rejected promise
  carries an \<open>ApiError\<close> (HTTP status, \<open>body.detail\<close> when the body has one), a network
  failure, or a plain JavaScript \<open>Error\<close> thrown by the component itself.
\<close>

datatype detail = DetailString string | DetailObject

datatype error = ApiError nat "detail option" | NetworkError | Error string

text \<open>
  The calls of the generated client that the components make. The last three belong to
  forms that are imported by the sources at hand but are not among them (\<open>AddItem\<close>,
  \<open>EditItem\<close>, \<open>EditUser\<close>).
\<close>

datatype request =
    ItemsService_deleteItem int
  | UsersService_deleteUser int
  | UsersService_updatePasswordMe obj
  | UsersService_updateUserMe obj
  | UsersService_createUser obj
  | LoginService_resetPassword obj
  | ItemsService_createItem obj
  | ItemsService_updateItem int obj
  | UsersService_updateUser int obj

type_synonym headers = "(string \<times> string) list"

text \<open>
  The backend is an opaque collaborator: \<open>server\<close> says, for the headers and the call it
  receives, whether the promise resolves (\<open>Inr\<close>) or rejects (\<open>Inl\<close>). Every request is
  assumed to settle.
\<close>

type_synonym server = "headers \<Rightarrow> request \<Rightarrow> error + unit"

datatype effect =
    ShowToast string string string
  | OnClose
  | Reset
  | Navigate string
  | InvalidateQueries "string list"
  | SetQueryData "string list" obj
  | Fetch headers request

record world =
  localStorage :: "string \<rightharpoonup> string"
  location_search :: "(string \<times> string) list"
  effects :: "effect list"

definition emit :: "effect \<Rightarrow> world \<Rightarrow> world" where
  "emit e w = w\<lparr>effects := effects w @ [e]\<rparr>"

text \<open>Statements of a callback body, run in source order.\<close>

definition statements :: "(world \<Rightarrow> world) list \<Rightarrow> world \<Rightarrow> world" where
  "statements fs w = fold (\<lambda>f. f) fs w"

text \<open>
  \<open>String.prototype.toLowerCase\<close> on the ASCII letters; every other byte is kept.
\<close>

definition toLowerCase :: "string \<Rightarrow> string" where
  "toLowerCase s =
     map (\<lambda>c. case map_of (zip ''ABCDEFGHIJKLMNOPQRSTUVWXYZ'' ''abcdefghijklmnopqrstuvwxyz'') c of
                None \<Rightarrow> c
              | Some l \<Rightarrow> l) s"

text \<open>A template literal \<open>`${errDetail}`\<close> of \<open>(err.body as any)?.detail\<close>.\<close>

fun errDetail :: "error \<Rightarrow> string" where
  "errDetail (ApiError status (Some (DetailString d))) = d"
| "errDetail (ApiError status (Some DetailObject)) = ''[object Object]''"
| "errDetail (ApiError status None) = ''undefined''"
| "errDetail NetworkError = ''undefined''"
| "errDetail (Error msg) = ''undefined''"

section \<open>The entry point: \<open>main.tsx\<close>\<close>

text \<open>
  \<open>OpenAPI.TOKEN = async () => localStorage.getItem("access_token") || ""\<close>: a missing
  key and an empty string both resolve to the empty string.
\<close>

definition OpenAPI_TOKEN :: "world \<Rightarrow> string" where
  "OpenAPI_TOKEN w =
     (case localStorage w ''access_token'' of
        None \<Rightarrow> ''''
      | Some t \<Rightarrow> (if t = '''' then '''' else t))"

section \<open>The API gateway client\<close>

text \<open>
  Modelled from the spec: the request core of the generated client (\<open>client/core\<close>) is
  not among the sources. Section 4.2 of the specification: the resolver is invoked per
  request and \<open>Authorization: Bearer <token>\<close> is attached when a token is present,
  otherwise omitted. The resolver stands for an absent token by the empty string, so a
  token is present when the resolved string is not empty.
\<close>

definition getHeaders :: "string \<Rightarrow> headers" where
  "getHeaders token = (if token = '''' then [] else [(''Authorization'', ''Bearer '' @ token)])"

text \<open>
  Modelled from the spec: one outbound call. The token is resolved at the time of the
  call; the call is recorded with the headers it carried and settles as the server says.
\<close>

definition request :: "server \<Rightarrow> request \<Rightarrow> world \<Rightarrow> (error + unit) \<times> world" where
  "request srv r w =
     (let hs = getHeaders (OpenAPI_TOKEN w) in (srv hs r, emit (Fetch hs r) w))"

section \<open>The session controller\<close>

text \<open>
  Modelled from the spec: the Token Store of section 4.1, \<open>set(token)\<close>,
  \<open>get() -> token|absent\<close> and \<open>clear()\<close>, on the one durable key that
  \<open>main.tsx\<close> reads. The hook \<open>hooks/useAuth\<close> that owns it is not among the sources.
\<close>

definition Token_Store_set :: "string \<Rightarrow> world \<Rightarrow> world" where
  "Token_Store_set token w = w\<lparr>localStorage := (localStorage w)(''access_token'' \<mapsto> token)\<rparr>"

definition Token_Store_get :: "world \<Rightarrow> string option" where
  "Token_Store_get w = localStorage w ''access_token''"

definition Token_Store_clear :: "world \<Rightarrow> world" where
  "Token_Store_clear w = w\<lparr>localStorage := (localStorage w)(''access_token'' := None)\<rparr>"

text \<open>
  Modelled from the spec: \<open>isLoggedIn() -> bool\<close> of \<open>hooks/useAuth\<close>, a pure function of
  Token Store presence (section 4.3).
\<close>

definition isLoggedIn :: "world \<Rightarrow> bool" where
  "isLoggedIn w = (Token_Store_get w \<noteq> None)"

text \<open>
  Modelled from the spec: \<open>logout()\<close> of \<open>hooks/useAuth\<close> clears the Token Store and
  never calls the server; invalidating cached resources is left to the caller
  (section 4.3).
\<close>

definition logout :: "world \<Rightarrow> world" where
  "logout w = Token_Store_clear w"

text \<open>
  Modelled from the spec: \<open>login(email, password)\<close> of \<open>hooks/useAuth\<close>. The backend's
  answer to \<open>POST /login\<close> is a bearer token or an error; on success the token is stored,
  on failure the error is surfaced and the store is left alone (section 4.3).
\<close>

definition login ::
  "(string \<Rightarrow> string \<Rightarrow> error + string) \<Rightarrow> string \<Rightarrow> string \<Rightarrow> world \<Rightarrow> (error + unit) \<times> world" where
  "login auth email password w =
     (case auth email password of
        Inl err \<Rightarrow> (Inl err, w)
      | Inr token \<Rightarrow> (Inr (), Token_Store_set token w))"

section \<open>The current user\<close>

text \<open>
  Modelled from the spec: the type \<open>UserPublic\<close> of the generated client is not among the
  sources; its fields are those of \<open>CurrentUser\<close> in section 3 (\<open>user_id\<close> for \<open>id\<close>).
  A component reads the current user with \<open>queryClient.getQueryData(["currentUser"])\<close>,
  which is \<open>undefined\<close>, here \<open>None\<close>, while the cache has no such entry.
\<close>

record UserPublic =
  user_id :: int
  email :: string
  full_name :: "string option"
  is_superuser :: bool
  is_active :: bool

section \<open>Mutations\<close>

text \<open>
  The options object given to \<open>useMutation\<close>. The three callbacks are optional.
\<close>

record 'v mutation_options =
  mutationFn :: "'v \<Rightarrow> world \<Rightarrow> (error + unit) \<times> world"
  onSuccess :: "(world \<Rightarrow> world) option"
  onError :: "(error \<Rightarrow> world \<Rightarrow> world) option"
  onSettled :: "(world \<Rightarrow> world) option"

definition callback :: "(world \<Rightarrow> world) option \<Rightarrow> world \<Rightarrow> world" where
  "callback f w = (case f of None \<Rightarrow> w | Some g \<Rightarrow> g w)"

text \<open>
  \<open>mutation.mutate(variables)\<close>, followed to settlement, as the data-fetching library
  documents it: the mutation function runs; when its promise resolves \<open>onSuccess\<close> and
  then \<open>onSettled\<close> are called, when it rejects \<open>onError\<close> and then \<open>onSettled\<close>.
\<close>

definition mutate :: "'v mutation_options \<Rightarrow> 'v \<Rightarrow> world \<Rightarrow> world" where
  "mutate opts variables w =
     (case mutationFn opts variables w of
        (Inr u, w1) \<Rightarrow> callback (onSettled opts) (callback (onSuccess opts) w1)
      | (Inl err, w1) \<Rightarrow>
          callback (onSettled opts) (callback (map_option (\<lambda>f. f err) (onError opts)) w1))"

text \<open>The cache keys a run has asked the query client to invalidate, in call order.\<close>

fun invalidated :: "effect list \<Rightarrow> string list list" where
  "invalidated [] = []"
| "invalidated (InvalidateQueries k # es) = k # invalidated es"
| "invalidated (e # es) = invalidated es"

subsection \<open>\<open>components/Common/DeleteAlert.tsx\<close>\<close>

definition deleteEntity :: "server \<Rightarrow> string \<Rightarrow> int \<Rightarrow> world \<Rightarrow> (error + unit) \<times> world" where
  "deleteEntity srv type id' w =
     (if type = ''Item'' then request srv (ItemsService_deleteItem id') w
      else if type = ''User'' then request srv (UsersService_deleteUser id') w
      else (Inl (Error (''Unexpected type: '' @ type)), w))"

definition Delete_mutation :: "server \<Rightarrow> string \<Rightarrow> int mutation_options" where
  "Delete_mutation srv type =
     \<lparr> mutationFn = deleteEntity srv type,
       onSuccess = Some (statements
         [emit (ShowToast ''Success''
                  (''The '' @ toLowerCase type @ '' was deleted successfully.'') ''success''),
          emit OnClose]),
       onError = Some (\<lambda>err. statements
         [emit (ShowToast ''An error occurred.''
                  (''An error occurred while deleting the '' @ toLowerCase type @ ''.'')
                  ''error'')]),
       onSettled = Some (statements
         [emit (InvalidateQueries [if type = ''Item'' then ''items'' else ''users''])]) \<rparr>"

definition Delete_onSubmit :: "server \<Rightarrow> string \<Rightarrow> int \<Rightarrow> world \<Rightarrow> world" where
  "Delete_onSubmit srv type id' w = mutate (Delete_mutation srv type) id' w"

subsection \<open>\<open>components/UserSettings/ChangePassword.tsx\<close>\<close>

text \<open>The options object has no \<open>onSettled\<close>, and the component has no query client.\<close>

definition ChangePassword_mutation :: "server \<Rightarrow> obj mutation_options" where
  "ChangePassword_mutation srv =
     \<lparr> mutationFn = (\<lambda>data. request srv (UsersService_updatePasswordMe data)),
       onSuccess = Some (statements
         [emit (ShowToast ''Success!'' ''Password updated.'' ''success''),
          emit Reset]),
       onError = Some (\<lambda>err. statements
         [emit (ShowToast ''Something went wrong.'' (errDetail err) ''error'')]),
       onSettled = None \<rparr>"

definition ChangePassword_onSubmit :: "server \<Rightarrow> obj \<Rightarrow> world \<Rightarrow> world" where
  "ChangePassword_onSubmit srv data w = mutate (ChangePassword_mutation srv) data w"

subsection \<open>\<open>components/UserSettings/UserInformation.tsx\<close>\<close>

definition UserInformation_mutation :: "server \<Rightarrow> obj mutation_options" where
  "UserInformation_mutation srv =
     \<lparr> mutationFn = (\<lambda>data. request srv (UsersService_updateUserMe data)),
       onSuccess = Some (statements
         [emit (ShowToast ''Success!'' ''User updated successfully.'' ''success'')]),
       onError = Some (\<lambda>err. statements
         [emit (ShowToast ''Something went wrong.'' (errDetail err) ''error'')]),
       onSettled = Some (statements
         [emit (InvalidateQueries [''users'']),
          emit (InvalidateQueries [''currentUser''])]) \<rparr>"

definition UserInformation_onSubmit :: "server \<Rightarrow> obj \<Rightarrow> world \<Rightarrow> world" where
  "UserInformation_onSubmit srv data w = mutate (UserInformation_mutation srv) data w"

subsection \<open>\<open>components/Admin/AddUser.tsx\<close>\<close>

definition AddUser_mutation :: "server \<Rightarrow> obj mutation_options" where
  "AddUser_mutation srv =
     \<lparr> mutationFn = (\<lambda>data. request srv (UsersService_createUser data)),
       onSuccess = Some (statements
         [emit (ShowToast ''Success!'' ''User created successfully.'' ''success''),
          emit Reset,
          emit OnClose]),
       onError = Some (\<lambda>err. statements
         [emit (ShowToast ''Something went wrong.'' (errDetail err) ''error'')]),
       onSettled = Some (statements
         [emit (InvalidateQueries [''users''])]) \<rparr>"

definition AddUser_onSubmit :: "server \<Rightarrow> obj \<Rightarrow> world \<Rightarrow> world" where
  "AddUser_onSubmit srv data w = mutate (AddUser_mutation srv) data w"

subsection \<open>\<open>components/UserSettings/DeleteConfirmation.tsx\<close>\<close>

definition DeleteConfirmation_mutation :: "server \<Rightarrow> int mutation_options" where
  "DeleteConfirmation_mutation srv =
     \<lparr> mutationFn = (\<lambda>id'. request srv (UsersService_deleteUser id')),
       onSuccess = Some (statements
         [emit (ShowToast ''Success'' ''Your account has been successfully deleted.''
                  ''success''),
          logout,
          emit OnClose]),
       onError = Some (\<lambda>err. statements
         [emit (ShowToast ''Something went wrong.'' (errDetail err) ''error'')]),
       onSettled = Some (statements
         [emit (InvalidateQueries [''currentUser''])]) \<rparr>"

text \<open>
  \<open>mutation.mutate(currentUser!.id)\<close>: the assertion is erased when the file is
  compiled, so with no current user in the cache reading \<open>id\<close> throws a \<open>TypeError\<close>
  and no mutation is started.
\<close>

definition DeleteConfirmation_onSubmit ::
  "server \<Rightarrow> UserPublic option \<Rightarrow> world \<Rightarrow> error + world" where
  "DeleteConfirmation_onSubmit srv currentUser w =
     (case currentUser of
        None \<Rightarrow> Inl (Error ''TypeError'')
      | Some u \<Rightarrow> Inr (mutate (DeleteConfirmation_mutation srv) (user_id u) w))"

subsection \<open>\<open>routes/reset-password.tsx\<close>\<close>

text \<open>\<open>URLSearchParams.get\<close>: the first value of the name, \<open>null\<close> when there is none.\<close>

definition URLSearchParams_get :: "(string \<times> string) list \<Rightarrow> string \<Rightarrow> string option" where
  "URLSearchParams_get params name = map_of params name"

text \<open>Reading a property of form data: \<open>undefined\<close> when the object has none of that name.\<close>

definition property :: "obj \<Rightarrow> string \<Rightarrow> json" where
  "property data name = (case map_of data name of None \<Rightarrow> JUndefined | Some v \<Rightarrow> v)"

text \<open>
  \<open>if (!token) return\<close>: a missing parameter and an empty one both leave the function
  before any call is made, and the promise resolves.
\<close>

definition resetPassword :: "server \<Rightarrow> obj \<Rightarrow> world \<Rightarrow> (error + unit) \<times> world" where
  "resetPassword srv data w =
     (case URLSearchParams_get (location_search w) ''token'' of
        None \<Rightarrow> (Inr (), w)
      | Some token \<Rightarrow>
          (if token = '''' then (Inr (), w)
           else request srv
                  (LoginService_resetPassword
                     [(''new_password'', property data ''new_password''),
                      (''token'', JString token)]) w))"

definition ResetPassword_mutation :: "server \<Rightarrow> obj mutation_options" where
  "ResetPassword_mutation srv =
     \<lparr> mutationFn = resetPassword srv,
       onSuccess = Some (statements
         [emit (ShowToast ''Success!'' ''Password updated.'' ''success''),
          emit Reset,
          emit (Navigate ''/login'')]),
       onError = Some (\<lambda>err. statements
         [emit (ShowToast ''Something went wrong.'' (errDetail err) ''error'')]),
       onSettled = None \<rparr>"

definition ResetPassword_onSubmit :: "server \<Rightarrow> obj \<Rightarrow> world \<Rightarrow> world" where
  "ResetPassword_onSubmit srv data w = mutate (ResetPassword_mutation srv) data w"

subsection \<open>Forms that are not among the sources\<close>

text \<open>
  Modelled from the spec: \<open>components/Items/AddItem\<close>, \<open>components/Items/EditItem\<close> and
  \<open>components/Admin/EditUser\<close> are imported by \<open>Navbar\<close> and \<open>ActionsMenu\<close> but are not
  among the sources. Section 4.4: every mutation issues exactly one write request and, on
  settlement, invalidates the entries of its row of the table: \<open>items\<close> for
  create/update Item, \<open>users\<close> for update User. Their notifications, which the
  specification does not word, are left out.
\<close>

definition AddItem_mutation :: "server \<Rightarrow> obj mutation_options" where
  "AddItem_mutation srv =
     \<lparr> mutationFn = (\<lambda>data. request srv (ItemsService_createItem data)),
       onSuccess = None,
       onError = None,
       onSettled = Some (statements [emit (InvalidateQueries [''items''])]) \<rparr>"

definition EditItem_mutation :: "server \<Rightarrow> int \<Rightarrow> obj mutation_options" where
  "EditItem_mutation srv id' =
     \<lparr> mutationFn = (\<lambda>data. request srv (ItemsService_updateItem id' data)),
       onSuccess = None,
       onError = None,
       onSettled = Some (statements [emit (InvalidateQueries [''items''])]) \<rparr>"

definition EditUser_mutation :: "server \<Rightarrow> int \<Rightarrow> obj mutation_options" where
  "EditUser_mutation srv id' =
     \<lparr> mutationFn = (\<lambda>data. request srv (UsersService_updateUser id' data)),
       onSuccess = None,
       onError = None,
       onSettled = Some (statements [emit (InvalidateQueries [''users''])]) \<rparr>"

subsection \<open>Every form submission\<close>

datatype submission =
    Submit_Delete string int
  | Submit_ChangePassword obj
  | Submit_UserInformation obj
  | Submit_AddUser obj
  | Submit_DeleteConfirmation "UserPublic option"
  | Submit_ResetPassword obj
  | Submit_AddItem obj
  | Submit_EditItem int obj
  | Submit_EditUser int obj

fun submit :: "server \<Rightarrow> submission \<Rightarrow> world \<Rightarrow> world" where
  "submit srv (Submit_Delete type id') w = Delete_onSubmit srv type id' w"
| "submit srv (Submit_ChangePassword data) w = ChangePassword_onSubmit srv data w"
| "submit srv (Submit_UserInformation data) w = UserInformation_onSubmit srv data w"
| "submit srv (Submit_AddUser data) w = AddUser_onSubmit srv data w"
| "submit srv (Submit_DeleteConfirmation currentUser) w =
     (case DeleteConfirmation_onSubmit srv currentUser w of Inl err \<Rightarrow> w | Inr w' \<Rightarrow> w')"
| "submit srv (Submit_ResetPassword data) w = ResetPassword_onSubmit srv data w"
| "submit srv (Submit_AddItem data) w = mutate (AddItem_mutation srv) data w"
| "submit srv (Submit_EditItem id' data) w = mutate (EditItem_mutation srv id') data w"
| "submit srv (Submit_EditUser id' data) w = mutate (EditUser_mutation srv id') data w"

text \<open>A run of submissions, each settled before the next.\<close>

fun submits :: "server \<Rightarrow> submission list \<Rightarrow> world \<Rightarrow> world" where
  "submits srv [] w = w"
| "submits srv (s # ss) w = submits srv ss (submit srv s w)"

text \<open>The account-deletion form is the one form whose handlers call \<open>logout\<close>.\<close>

fun calls_logout :: "submission \<Rightarrow> bool" where
  "calls_logout (Submit_DeleteConfirmation currentUser) = True"
| "calls_logout s = False"

text \<open>
  What a run asked of the query cache: the invalidations and the writes, in call order,
  and the writes alone.
\<close>

fun cache_calls :: "effect list \<Rightarrow> effect list" where
  "cache_calls [] = []"
| "cache_calls (InvalidateQueries k # es) = InvalidateQueries k # cache_calls es"
| "cache_calls (SetQueryData k d # es) = SetQueryData k d # cache_calls es"
| "cache_calls (e # es) = cache_calls es"

fun cache_writes :: "effect list \<Rightarrow> (string list \<times> obj) list" where
  "cache_writes [] = []"
| "cache_writes (SetQueryData k d # es) = (k, d) # cache_writes es"
| "cache_writes (e # es) = cache_writes es"

text \<open>The calls a run made to the server, with the headers each carried.\<close>

fun fetched :: "effect list \<Rightarrow> (headers \<times> request) list" where
  "fetched [] = []"
| "fetched (Fetch hs r # es) = (hs, r) # fetched es"
| "fetched (e # es) = fetched es"

section \<open>Routes\<close>

datatype route =
    Route_root
  | Route_layout
  | Route_layout_items
  | Route_layout_settings
  | Route_layout_admin
  | Route_reset_password

datatype component =
    Root | Layout | Items | UserSettings | Admin | ResetPassword
  | UserInformation | ChangePassword | Appearance | DeleteAccount

fun component_of :: "route \<Rightarrow> component" where
  "component_of Route_root = Root"
| "component_of Route_layout = Layout"
| "component_of Route_layout_items = Items"
| "component_of Route_layout_settings = UserSettings"
| "component_of Route_layout_admin = Admin"
| "component_of Route_reset_password = ResetPassword"

text \<open>
  The file routes \<open>/_layout/items\<close>, \<open>/_layout/settings\<close> and \<open>/_layout/admin\<close> are
  children of \<open>/_layout\<close>; \<open>/reset-password\<close> is a child of the root. A navigation matches
  the chain of routes from the root down to its target.
\<close>

fun matches :: "route \<Rightarrow> route list" where
  "matches Route_root = [Route_root]"
| "matches Route_layout = [Route_root, Route_layout]"
| "matches Route_layout_items = [Route_root, Route_layout, Route_layout_items]"
| "matches Route_layout_settings = [Route_root, Route_layout, Route_layout_settings]"
| "matches Route_layout_admin = [Route_root, Route_layout, Route_layout_admin]"
| "matches Route_reset_password = [Route_root, Route_reset_password]"

text \<open>
  \<open>beforeLoad\<close> of each route; \<open>Some to\<close> is \<open>throw redirect({ to })\<close>. The layout route
  sends a visitor who is not logged in to \<open>/login\<close>; the reset-password route sends one
  who is logged in to \<open>/\<close>.
\<close>

fun beforeLoad :: "route \<Rightarrow> world \<Rightarrow> string option" where
  "beforeLoad Route_layout w = (if \<not> isLoggedIn w then Some ''/login'' else None)"
| "beforeLoad Route_reset_password w = (if isLoggedIn w then Some ''/'' else None)"
| "beforeLoad r w = None"

text \<open>
  A navigation, as the routing library documents it: the \<open>beforeLoad\<close> functions of the
  matched routes run from the root down, before anything of the target is rendered; the
  first that throws a redirect aborts the navigation.
\<close>

fun beforeLoads :: "route list \<Rightarrow> world \<Rightarrow> string option" where
  "beforeLoads [] w = None"
| "beforeLoads (r # rs) w =
     (case beforeLoad r w of Some to \<Rightarrow> Some to | None \<Rightarrow> beforeLoads rs w)"

datatype outcome = Rendered "component list" | Redirected string

definition navigateTo :: "route \<Rightarrow> world \<Rightarrow> outcome" where
  "navigateTo r w =
     (case beforeLoads (matches r) w of
        Some to \<Rightarrow> Redirected to
      | None \<Rightarrow> Rendered (map component_of (matches r)))"

text \<open>The routes that are entered through the layout route.\<close>

definition authenticated_route :: "route \<Rightarrow> bool" where
  "authenticated_route r = (Route_layout \<in> set (matches r))"

section \<open>\<open>routes/_layout/settings.tsx\<close>\<close>

definition tabsConfig :: "(string \<times> component) list" where
  "tabsConfig =
     [(''My profile'', UserInformation),
      (''Password'', ChangePassword),
      (''Appearance'', Appearance),
      (''Danger zone'', DeleteAccount)]"

text \<open>\<open>currentUser?.is_superuser\<close> is falsy when there is no current user.\<close>

definition finalTabs :: "UserPublic option \<Rightarrow> (string \<times> component) list" where
  "finalTabs currentUser =
     (if (case currentUser of None \<Rightarrow> False | Some u \<Rightarrow> is_superuser u)
      then take 3 tabsConfig
      else tabsConfig)"

text \<open>What \<open>UserSettings\<close> renders: one tab per title, one panel per component.\<close>

record tabs =
  TabList :: "string list"
  TabPanels :: "component list"

definition UserSettings_render :: "UserPublic option \<Rightarrow> tabs" where
  "UserSettings_render currentUser =
     \<lparr> TabList = map fst (finalTabs currentUser),
       TabPanels = map snd (finalTabs currentUser) \<rparr>"

section \<open>Properties\<close>

subsection \<open>Unfolding a settled mutation\<close>

lemmas run_defs = mutate_def callback_def statements_def emit_def request_def Let_def

lemmas form_defs =
  Delete_onSubmit_def Delete_mutation_def deleteEntity_def
  ChangePassword_onSubmit_def ChangePassword_mutation_def
  UserInformation_onSubmit_def UserInformation_mutation_def
  AddUser_onSubmit_def AddUser_mutation_def
  DeleteConfirmation_onSubmit_def DeleteConfirmation_mutation_def
  ResetPassword_onSubmit_def ResetPassword_mutation_def resetPassword_def
  AddItem_mutation_def EditItem_mutation_def EditUser_mutation_def

lemmas session_defs =
  isLoggedIn_def Token_Store_get_def Token_Store_set_def Token_Store_clear_def logout_def

lemma invalidated_append: "invalidated (xs @ ys) = invalidated xs @ invalidated ys"
  by (induction xs rule: invalidated.induct) simp_all

lemma cache_calls_append: "cache_calls (xs @ ys) = cache_calls xs @ cache_calls ys"
  by (induction xs rule: cache_calls.induct) simp_all

lemma cache_writes_append: "cache_writes (xs @ ys) = cache_writes xs @ cache_writes ys"
  by (induction xs rule: cache_writes.induct) simp_all

lemma fetched_append: "fetched (xs @ ys) = fetched xs @ fetched ys"
  by (induction xs rule: fetched.induct) simp_all

subsection \<open>The Token Store under form submissions\<close>

text \<open>Only the account-deletion form touches the browser's storage.\<close>

lemma localStorage_submit:
  "\<not> calls_logout s \<Longrightarrow> localStorage (submit srv s w) = localStorage w"
  by (cases s) (simp_all add: form_defs run_defs split: sum.split option.split)

lemma localStorage_submits:
  "\<forall>s\<in>set ss. \<not> calls_logout s \<Longrightarrow> localStorage (submits srv ss w) = localStorage w"
  by (induction ss arbitrary: w) (simp_all add: localStorage_submit)

text \<open>No form stores a token.\<close>

lemma Token_Store_get_submit:
  "Token_Store_get w = None \<Longrightarrow> Token_Store_get (submit srv s w) = None"
  by (cases s) (simp_all add: form_defs run_defs session_defs split: sum.split option.split)

lemma Token_Store_get_submits:
  "Token_Store_get w = None \<Longrightarrow> Token_Store_get (submits srv ss w) = None"
  by (induction ss arbitrary: w) (simp_all add: Token_Store_get_submit)

subsection \<open>The query cache under form submissions\<close>

lemma cache_writes_submit:
  "cache_writes (effects (submit srv s w)) = cache_writes (effects w)"
  by (cases s)
    (simp_all add: form_defs run_defs session_defs cache_writes_append
      split: sum.split option.split)

lemma cache_calls_submit:
  "\<exists>ks. cache_calls (effects (submit srv s w)) =
          cache_calls (effects w) @ map InvalidateQueries ks"
proof (cases s)
  case (Submit_Delete type id')
  have "cache_calls (effects (submit srv s w)) =
        cache_calls (effects w) @
          map InvalidateQueries [[if type = ''Item'' then ''items'' else ''users'']]"
    by (simp add: Submit_Delete form_defs run_defs cache_calls_append split: sum.split)
  then show ?thesis by blast
next
  case (Submit_ChangePassword data)
  have "cache_calls (effects (submit srv s w)) = cache_calls (effects w) @ map InvalidateQueries []"
    by (simp add: Submit_ChangePassword form_defs run_defs cache_calls_append split: sum.split)
  then show ?thesis by blast
next
  case (Submit_UserInformation data)
  have "cache_calls (effects (submit srv s w)) =
        cache_calls (effects w) @ map InvalidateQueries [[''users''], [''currentUser'']]"
    by (simp add: Submit_UserInformation form_defs run_defs cache_calls_append split: sum.split)
  then show ?thesis by blast
next
  case (Submit_AddUser data)
  have "cache_calls (effects (submit srv s w)) =
        cache_calls (effects w) @ map InvalidateQueries [[''users'']]"
    by (simp add: Submit_AddUser form_defs run_defs cache_calls_append split: sum.split)
  then show ?thesis by blast
next
  case (Submit_DeleteConfirmation currentUser)
  show ?thesis
  proof (cases currentUser)
    case None
    have "cache_calls (effects (submit srv s w)) =
          cache_calls (effects w) @ map InvalidateQueries []"
      by (simp add: Submit_DeleteConfirmation None form_defs)
    then show ?thesis by blast
  next
    case (Some u)
    have "cache_calls (effects (submit srv s w)) =
          cache_calls (effects w) @ map InvalidateQueries [[''currentUser'']]"
      by (simp add: Submit_DeleteConfirmation Some form_defs run_defs session_defs
          cache_calls_append split: sum.split)
    then show ?thesis by blast
  qed
next
  case (Submit_ResetPassword data)
  have "cache_calls (effects (submit srv s w)) = cache_calls (effects w) @ map InvalidateQueries []"
    by (simp add: Submit_ResetPassword form_defs run_defs cache_calls_append
        split: sum.split option.split)
  then show ?thesis by blast
next
  case (Submit_AddItem data)
  have "cache_calls (effects (submit srv s w)) =
        cache_calls (effects w) @ map InvalidateQueries [[''items'']]"
    by (simp add: Submit_AddItem form_defs run_defs cache_calls_append split: sum.split)
  then show ?thesis by blast
next
  case (Submit_EditItem id' data)
  have "cache_calls (effects (submit srv s w)) =
        cache_calls (effects w) @ map InvalidateQueries [[''items'']]"
    by (simp add: Submit_EditItem form_defs run_defs cache_calls_append split: sum.split)
  then show ?thesis by blast
next
  case (Submit_EditUser id' data)
  have "cache_calls (effects (submit srv s w)) =
        cache_calls (effects w) @ map InvalidateQueries [[''users'']]"
    by (simp add: Submit_EditUser form_defs run_defs cache_calls_append split: sum.split)
  then show ?thesis by blast
qed

subsection \<open>Deleting a user or an item\<close>

lemma Delete_invalidated:
  "invalidated (effects (Delete_onSubmit srv type id' w)) =
     invalidated (effects w) @ [[if type = ''Item'' then ''items'' else ''users'']]"
  by (simp add: Delete_onSubmit_def Delete_mutation_def deleteEntity_def run_defs
      invalidated_append split: sum.split)

text \<open>
  C1. A delete of a User or of an Item invalidates, when it settles, exactly the mapped
  collection key: \<open>users\<close> for a User, \<open>items\<close> for an Item. The server is arbitrary, so
  the request may have succeeded or failed.
\<close>

theorem C1_delete_invalidates_mapped_key:
  "invalidated (effects (Delete_onSubmit srv ''User'' id' w)) =
     invalidated (effects w) @ [[''users'']]
   \<and> invalidated (effects (Delete_onSubmit srv ''Item'' id' w)) =
     invalidated (effects w) @ [[''items'']]"
  by (simp add: Delete_invalidated)

text \<open>A failed delete of each kind, from a world in which nothing was invalidated yet.\<close>

theorem C1_witness:
  "invalidated (effects (Delete_onSubmit (\<lambda>hs r. Inl NetworkError) ''User'' 7
      \<lparr>localStorage = [''access_token'' \<mapsto> ''abc''], location_search = [], effects = []\<rparr>)) =
     [[''users'']]
   \<and> invalidated (effects (Delete_onSubmit (\<lambda>hs r. Inl NetworkError) ''Item'' 7
      \<lparr>localStorage = [''access_token'' \<mapsto> ''abc''], location_search = [], effects = []\<rparr>)) =
     [[''items'']]"
  using C1_delete_invalidates_mapped_key [of "\<lambda>hs r. Inl NetworkError" 7
      "\<lparr>localStorage = [''access_token'' \<mapsto> ''abc''], location_search = [], effects = []\<rparr>"]
  by simp

subsection \<open>Changing the password\<close>

text \<open>
  C2, as amended. A change of password invalidates no cache entry when it settles,
  neither \<open>users\<close> nor \<open>currentUser\<close>: the request is made, then a success notification
  is shown and the form is reset, or the error is shown.
\<close>

theorem C2_change_password_invalidates_nothing:
  "ChangePassword_onSubmit srv data w =
     (case srv (getHeaders (OpenAPI_TOKEN w)) (UsersService_updatePasswordMe data) of
        Inr u \<Rightarrow> w\<lparr>effects := effects w @
          [Fetch (getHeaders (OpenAPI_TOKEN w)) (UsersService_updatePasswordMe data),
           ShowToast ''Success!'' ''Password updated.'' ''success'',
           Reset]\<rparr>
      | Inl err \<Rightarrow> w\<lparr>effects := effects w @
          [Fetch (getHeaders (OpenAPI_TOKEN w)) (UsersService_updatePasswordMe data),
           ShowToast ''Something went wrong.'' (errDetail err) ''error'']\<rparr>)
   \<and> invalidated (effects (ChangePassword_onSubmit srv data w)) = invalidated (effects w)"
  by (simp add: ChangePassword_onSubmit_def ChangePassword_mutation_def run_defs
      invalidated_append split: sum.split)

text \<open>A rejected change of password leaves the earlier invalidations as they were.\<close>

theorem C2_witness:
  "invalidated (effects (ChangePassword_onSubmit (\<lambda>hs r. Inl (ApiError 400 None))
      [(''current_password'', JString ''oldpassword'')]
      \<lparr>localStorage = [''access_token'' \<mapsto> ''abc''], location_search = [],
        effects = [InvalidateQueries [''items'']]\<rparr>)) = [[''items'']]"
  using C2_change_password_invalidates_nothing [of "\<lambda>hs r. Inl (ApiError 400 None)"
      "[(''current_password'', JString ''oldpassword'')]"
      "\<lparr>localStorage = [''access_token'' \<mapsto> ''abc''], location_search = [],
        effects = [InvalidateQueries [''items'']]\<rparr>"]
  by simp

text \<open>
  C2 as it was stated fails: after a change of password that the server accepts, it is
  not the case that both \<open>users\<close> and \<open>currentUser\<close> have been invalidated.
\<close>

theorem C2_counterexample:
  "\<not> ([''users''] \<in> set (invalidated (effects (ChangePassword_onSubmit (\<lambda>hs r. Inr ())
          [(''current_password'', JString ''oldpassword''),
           (''new_password'', JString ''newpassword'')]
          \<lparr>localStorage = [''access_token'' \<mapsto> ''abc''], location_search = [],
            effects = []\<rparr>)))
      \<and> [''currentUser''] \<in> set (invalidated (effects (ChangePassword_onSubmit (\<lambda>hs r. Inr ())
          [(''current_password'', JString ''oldpassword''),
           (''new_password'', JString ''newpassword'')]
          \<lparr>localStorage = [''access_token'' \<mapsto> ''abc''], location_search = [],
            effects = []\<rparr>))))"
  by (simp add: ChangePassword_onSubmit_def ChangePassword_mutation_def run_defs)

subsection \<open>The route guard\<close>

text \<open>The routes behind the guard are the layout route and its three children.\<close>

lemma authenticated_route_iff:
  "authenticated_route r \<longleftrightarrow>
     r = Route_layout \<or> r = Route_layout_items \<or> r = Route_layout_settings
     \<or> r = Route_layout_admin"
  by (cases r) (simp_all add: authenticated_route_def)

text \<open>A visitor who is logged in gets the layout and the page.\<close>

lemma navigateTo_logged_in:
  "authenticated_route r \<Longrightarrow> isLoggedIn w \<Longrightarrow>
     navigateTo r w = Rendered (map component_of (matches r))"
  by (cases r) (simp_all add: authenticated_route_def navigateTo_def)

text \<open>
  C3. A navigation to a route under the layout route, made while \<open>isLoggedIn()\<close> is
  false, is aborted with a redirect to \<open>/login\<close>; nothing of the guarded subtree is
  rendered.
\<close>

theorem C3_route_guard:
  assumes "authenticated_route r" and "\<not> isLoggedIn w"
  shows "navigateTo r w = Redirected ''/login'' \<and> (\<forall>cs. navigateTo r w \<noteq> Rendered cs)"
  using assms by (cases r) (simp_all add: authenticated_route_def navigateTo_def)

text \<open>The settings page, visited with an empty storage.\<close>

theorem C3_witness:
  "authenticated_route Route_layout_settings
   \<and> \<not> isLoggedIn \<lparr>localStorage = Map.empty, location_search = [], effects = []\<rparr>
   \<and> navigateTo Route_layout_settings
       \<lparr>localStorage = Map.empty, location_search = [], effects = []\<rparr> = Redirected ''/login''"
proof -
  have r: "authenticated_route Route_layout_settings"
    by (simp add: authenticated_route_def)
  have l: "\<not> isLoggedIn \<lparr>localStorage = Map.empty, location_search = [], effects = []\<rparr>"
    by (simp add: isLoggedIn_def Token_Store_get_def)
  show ?thesis
    using r l C3_route_guard [OF r l] by simp
qed

subsection \<open>The bearer token of a request\<close>

text \<open>
  C4. The resolver reads the stored token at every call and keeps nothing between
  calls: a request made while a token is stored carries it, the resolver still returns
  it afterwards, and once \<open>logout\<close> has cleared the store the resolver returns the empty
  string, so that the very next request carries no \<open>Authorization\<close> header.
\<close>

theorem C4_token_resolved_per_request:
  assumes "Token_Store_get w = Some t" and "t \<noteq> ''''"
  shows "OpenAPI_TOKEN w = t
       \<and> OpenAPI_TOKEN (snd (request srv1 r1 w)) = t
       \<and> OpenAPI_TOKEN (logout (snd (request srv1 r1 w))) = ''''
       \<and> fetched (effects (snd (request srv2 r2 (logout (snd (request srv1 r1 w)))))) =
           fetched (effects w) @ [([(''Authorization'', ''Bearer '' @ t)], r1), ([], r2)]"
  using assms
  by (simp add: OpenAPI_TOKEN_def getHeaders_def run_defs session_defs fetched_append)

text \<open>Two deletes around a logout: the first carries the bearer token, the second none.\<close>

theorem C4_witness:
  "Token_Store_get \<lparr>localStorage = [''access_token'' \<mapsto> ''abc''], location_search = [],
      effects = []\<rparr> = Some ''abc''
   \<and> ''abc'' \<noteq> ''''
   \<and> fetched (effects (snd (request (\<lambda>hs r. Inr ()) (ItemsService_deleteItem 2)
        (logout (snd (request (\<lambda>hs r. Inr ()) (ItemsService_deleteItem 1)
          \<lparr>localStorage = [''access_token'' \<mapsto> ''abc''], location_search = [],
            effects = []\<rparr>)))))) =
       [([(''Authorization'', ''Bearer abc'')], ItemsService_deleteItem 1),
        ([], ItemsService_deleteItem 2)]"
proof -
  have g: "Token_Store_get \<lparr>localStorage = [''access_token'' \<mapsto> ''abc''],
      location_search = [], effects = []\<rparr> = Some ''abc''"
    by (simp add: Token_Store_get_def)
  have n: "''abc'' \<noteq> ''''"
    by simp
  show ?thesis
    using g C4_token_resolved_per_request [OF g n, of "\<lambda>hs r. Inr ()" "ItemsService_deleteItem 1"
        "\<lambda>hs r. Inr ()" "ItemsService_deleteItem 2"]
    by simp
qed

subsection \<open>Deleting one's own account\<close>

text \<open>
  C5. When the server accepts the deletion of one's own account, the token is cleared,
  \<open>currentUser\<close> and no other cache entry is invalidated, and \<open>isLoggedIn()\<close> is false
  from then on, whatever forms are submitted afterwards.
\<close>

theorem C5_delete_own_account:
  assumes "srv (getHeaders (OpenAPI_TOKEN w)) (UsersService_deleteUser id') = Inr ()"
  shows "Token_Store_get (mutate (DeleteConfirmation_mutation srv) id' w) = None
       \<and> \<not> isLoggedIn (mutate (DeleteConfirmation_mutation srv) id' w)
       \<and> invalidated (effects (mutate (DeleteConfirmation_mutation srv) id' w)) =
           invalidated (effects w) @ [[''currentUser'']]
       \<and> (\<forall>srv' ss.
            \<not> isLoggedIn (submits srv' ss (mutate (DeleteConfirmation_mutation srv) id' w)))"
proof -
  have cleared: "Token_Store_get (mutate (DeleteConfirmation_mutation srv) id' w) = None"
    using assms by (simp add: DeleteConfirmation_mutation_def run_defs session_defs)
  have keys: "invalidated (effects (mutate (DeleteConfirmation_mutation srv) id' w)) =
      invalidated (effects w) @ [[''currentUser'']]"
    using assms
    by (simp add: DeleteConfirmation_mutation_def run_defs session_defs invalidated_append)
  have later: "\<not> isLoggedIn (submits srv' ss (mutate (DeleteConfirmation_mutation srv) id' w))"
    for srv' ss
    using Token_Store_get_submits [OF cleared] by (simp add: isLoggedIn_def)
  show ?thesis
    using cleared keys later by (simp add: isLoggedIn_def)
qed

text \<open>A logged-in user, number 7, whose deletion the server accepts.\<close>

theorem C5_witness:
  "(\<lambda>hs r. Inr ())
      (getHeaders (OpenAPI_TOKEN \<lparr>localStorage = [''access_token'' \<mapsto> ''abc''],
         location_search = [], effects = []\<rparr>))
      (UsersService_deleteUser 7) = Inr ()
   \<and> isLoggedIn \<lparr>localStorage = [''access_token'' \<mapsto> ''abc''], location_search = [],
        effects = []\<rparr>
   \<and> \<not> isLoggedIn (mutate (DeleteConfirmation_mutation (\<lambda>hs r. Inr ())) 7
        \<lparr>localStorage = [''access_token'' \<mapsto> ''abc''], location_search = [], effects = []\<rparr>)
   \<and> invalidated (effects (mutate (DeleteConfirmation_mutation (\<lambda>hs r. Inr ())) 7
        \<lparr>localStorage = [''access_token'' \<mapsto> ''abc''], location_search = [], effects = []\<rparr>)) =
       [[''currentUser'']]"
  using C5_delete_own_account [of "\<lambda>hs r. Inr ()"
      "\<lparr>localStorage = [''access_token'' \<mapsto> ''abc''], location_search = [], effects = []\<rparr>" 7]
  by (simp add: isLoggedIn_def Token_Store_get_def)

subsection \<open>Updating one's own profile\<close>

text \<open>
  C6. An update of one's own profile invalidates, when it settles, both \<open>users\<close> and
  \<open>currentUser\<close>. The server is arbitrary, so the request may have succeeded or failed.
\<close>

theorem C6_update_me_invalidates_users_and_currentUser:
  "invalidated (effects (UserInformation_onSubmit srv data w)) =
     invalidated (effects w) @ [[''users''], [''currentUser'']]"
  by (simp add: UserInformation_onSubmit_def UserInformation_mutation_def run_defs
      invalidated_append split: sum.split)

text \<open>One update that fails and one that succeeds.\<close>

theorem C6_witness:
  "invalidated (effects (UserInformation_onSubmit (\<lambda>hs r. Inl NetworkError)
      [(''full_name'', JString ''Ada''), (''email'', JString ''ada@example.com'')]
      \<lparr>localStorage = [''access_token'' \<mapsto> ''abc''], location_search = [], effects = []\<rparr>)) =
     [[''users''], [''currentUser'']]
   \<and> invalidated (effects (UserInformation_onSubmit (\<lambda>hs r. Inr ())
      [(''full_name'', JString ''Ada''), (''email'', JString ''ada@example.com'')]
      \<lparr>localStorage = [''access_token'' \<mapsto> ''abc''], location_search = [], effects = []\<rparr>)) =
     [[''users''], [''currentUser'']]"
  using
    C6_update_me_invalidates_users_and_currentUser [of "\<lambda>hs r. Inl NetworkError"
      "[(''full_name'', JString ''Ada''), (''email'', JString ''ada@example.com'')]"
      "\<lparr>localStorage = [''access_token'' \<mapsto> ''abc''], location_search = [], effects = []\<rparr>"]
    C6_update_me_invalidates_users_and_currentUser [of "\<lambda>hs r. Inr ()"
      "[(''full_name'', JString ''Ada''), (''email'', JString ''ada@example.com'')]"
      "\<lparr>localStorage = [''access_token'' \<mapsto> ''abc''], location_search = [], effects = []\<rparr>"]
  by simp

subsection \<open>Invalidate, never write\<close>

text \<open>
  C7. No form submission writes into the query cache: whatever the form, its data and
  the server's answer, the run adds no \<open>setQueryData\<close> call, and every call it makes
  to the cache is an invalidation.
\<close>

theorem C7_mutations_only_invalidate:
  "cache_writes (effects (submit srv s w)) = cache_writes (effects w)
   \<and> (\<exists>ks. cache_calls (effects (submit srv s w)) =
             cache_calls (effects w) @ map InvalidateQueries ks)"
  using cache_writes_submit cache_calls_submit by blast

text \<open>Creating a user: the one call to the cache invalidates \<open>users\<close>.\<close>

theorem C7_witness:
  "cache_writes (effects (submit (\<lambda>hs r. Inr ())
      (Submit_AddUser [(''email'', JString ''ada@example.com'')])
      \<lparr>localStorage = [''access_token'' \<mapsto> ''abc''], location_search = [], effects = []\<rparr>)) = []
   \<and> cache_calls (effects (submit (\<lambda>hs r. Inr ())
      (Submit_AddUser [(''email'', JString ''ada@example.com'')])
      \<lparr>localStorage = [''access_token'' \<mapsto> ''abc''], location_search = [], effects = []\<rparr>)) =
     [InvalidateQueries [''users'']]"
proof -
  have calls: "cache_calls (effects (submit (\<lambda>hs r. Inr ())
      (Submit_AddUser [(''email'', JString ''ada@example.com'')])
      \<lparr>localStorage = [''access_token'' \<mapsto> ''abc''], location_search = [], effects = []\<rparr>)) =
     [InvalidateQueries [''users'']]"
    by (simp add: AddUser_onSubmit_def AddUser_mutation_def run_defs)
  show ?thesis
    using calls C7_mutations_only_invalidate [of "\<lambda>hs r. Inr ()"
      "Submit_AddUser [(''email'', JString ''ada@example.com'')]"
      "\<lparr>localStorage = [''access_token'' \<mapsto> ''abc''], location_search = [], effects = []\<rparr>"]
    by simp
qed

subsection \<open>Login, then logout\<close>

text \<open>
  C8, as amended. Take a login that succeeds, any run of form submissions other than
  the deletion of the account, and a logout. \<open>isLoggedIn()\<close> is true after the login
  and after each of the submissions, and false after the logout, whatever the storage
  held before. Before the login it is false exactly when the Token Store holds no
  token at that point.
\<close>

theorem C8_login_then_logout:
  assumes "login auth mail pass w0 = (Inr (), w1)"
    and "\<forall>s\<in>set ss. \<not> calls_logout s"
  shows "(\<not> isLoggedIn w0 \<longleftrightarrow> Token_Store_get w0 = None)
       \<and> (\<forall>n. isLoggedIn (submits srv (take n ss) w1))
       \<and> \<not> isLoggedIn (logout (submits srv ss w1))"
proof -
  obtain token where w1: "w1 = Token_Store_set token w0"
    using assms(1) by (auto simp: login_def split: sum.splits)
  have between: "isLoggedIn (submits srv (take n ss) w1)" for n
  proof -
    have "\<forall>s\<in>set (take n ss). \<not> calls_logout s"
      using assms(2) by (meson in_set_takeD)
    then have "localStorage (submits srv (take n ss) w1) = localStorage w1"
      by (rule localStorage_submits)
    then show ?thesis
      by (simp add: w1 session_defs)
  qed
  show ?thesis
    using between by (simp add: session_defs)
qed

text \<open>
  From an empty storage: a login, the delete of an item, a change of password, and a
  logout.
\<close>

theorem C8_witness:
  "\<not> isLoggedIn \<lparr>localStorage = Map.empty, location_search = [], effects = []\<rparr>
   \<and> isLoggedIn (submits (\<lambda>hs r. Inr ())
       (take 1 [Submit_Delete ''Item'' 3, Submit_ChangePassword []])
       \<lparr>localStorage = [''access_token'' \<mapsto> ''abc''], location_search = [], effects = []\<rparr>)
   \<and> \<not> isLoggedIn (logout (submits (\<lambda>hs r. Inr ())
       [Submit_Delete ''Item'' 3, Submit_ChangePassword []]
       \<lparr>localStorage = [''access_token'' \<mapsto> ''abc''], location_search = [], effects = []\<rparr>))"
proof -
  have a: "Token_Store_get \<lparr>localStorage = Map.empty, location_search = [], effects = []\<rparr> = None"
    by (simp add: Token_Store_get_def)
  have b: "login (\<lambda>e p. Inr ''abc'') ''ada@example.com'' ''secret''
      \<lparr>localStorage = Map.empty, location_search = [], effects = []\<rparr> =
      (Inr (), \<lparr>localStorage = [''access_token'' \<mapsto> ''abc''], location_search = [],
         effects = []\<rparr>)"
    by (simp add: login_def Token_Store_set_def)
  have c: "\<forall>s\<in>set [Submit_Delete ''Item'' 3, Submit_ChangePassword []]. \<not> calls_logout s"
    by simp
  show ?thesis
    using a C8_login_then_logout [OF b c, of "\<lambda>hs r. Inr ()"] by blast
qed

text \<open>
  C8 as it was stated fails: the storage is durable, so a login can start from a world
  that already holds a token. The login below succeeds, and \<open>isLoggedIn()\<close> is true
  before it.
\<close>

theorem C8_counterexample:
  "login (\<lambda>e p. Inr ''abc'') ''ada@example.com'' ''secret''
      \<lparr>localStorage = [''access_token'' \<mapsto> ''old''], location_search = [], effects = []\<rparr> =
      (Inr (), \<lparr>localStorage = [''access_token'' \<mapsto> ''abc''], location_search = [],
         effects = []\<rparr>)
   \<and> \<not> (\<not> isLoggedIn \<lparr>localStorage = [''access_token'' \<mapsto> ''old''], location_search = [],
            effects = []\<rparr>
        \<and> isLoggedIn \<lparr>localStorage = [''access_token'' \<mapsto> ''abc''], location_search = [],
            effects = []\<rparr>
        \<and> \<not> isLoggedIn (logout \<lparr>localStorage = [''access_token'' \<mapsto> ''abc''],
            location_search = [], effects = []\<rparr>))"
  by (simp add: login_def session_defs)

subsection \<open>Resetting a password without a token\<close>

text \<open>
  C9. When the page URL has no \<open>token\<close> parameter, submitting the reset-password form
  makes no request and still runs the success path: the success notification, the reset
  of the form and the navigation to \<open>/login\<close>, and nothing else.
\<close>

theorem C9_reset_password_without_token:
  assumes "URLSearchParams_get (location_search w) ''token'' = None"
  shows "ResetPassword_onSubmit srv data w =
           w\<lparr>effects := effects w @
             [ShowToast ''Success!'' ''Password updated.'' ''success'',
              Reset,
              Navigate ''/login'']\<rparr>
       \<and> fetched (effects (ResetPassword_onSubmit srv data w)) = fetched (effects w)"
  using assms
  by (simp add: ResetPassword_onSubmit_def ResetPassword_mutation_def resetPassword_def
      run_defs fetched_append)

text \<open>A URL with another parameter only, and a server that would have failed.\<close>

theorem C9_witness:
  "URLSearchParams_get
      (location_search \<lparr>localStorage = Map.empty, location_search = [(''lang'', ''en'')],
         effects = []\<rparr>) ''token'' = None
   \<and> effects (ResetPassword_onSubmit (\<lambda>hs r. Inl NetworkError)
        [(''new_password'', JString ''newpassword'')]
        \<lparr>localStorage = Map.empty, location_search = [(''lang'', ''en'')], effects = []\<rparr>) =
       [ShowToast ''Success!'' ''Password updated.'' ''success'', Reset, Navigate ''/login'']"
proof -
  have a: "URLSearchParams_get
      (location_search \<lparr>localStorage = Map.empty, location_search = [(''lang'', ''en'')],
         effects = []\<rparr>) ''token'' = None"
    by (simp add: URLSearchParams_get_def)
  show ?thesis
    using a C9_reset_password_without_token [OF a, of "\<lambda>hs r. Inl NetworkError"
        "[(''new_password'', JString ''newpassword'')]"]
    by simp
qed

subsection \<open>The tabs of the settings page\<close>

text \<open>
  C10. For a current user who is a superuser the settings page renders the first three
  tabs, without \<open>Danger zone\<close> and its delete-account panel; for one who is not, and
  when the cache holds no current user, it renders all four.
\<close>

theorem C10_settings_tabs:
  "(is_superuser u \<longrightarrow>
      UserSettings_render (Some u) =
        \<lparr> TabList = [''My profile'', ''Password'', ''Appearance''],
          TabPanels = [UserInformation, ChangePassword, Appearance] \<rparr>
      \<and> ''Danger zone'' \<notin> set (TabList (UserSettings_render (Some u)))
      \<and> DeleteAccount \<notin> set (TabPanels (UserSettings_render (Some u))))
   \<and> (\<not> is_superuser u \<longrightarrow>
      UserSettings_render (Some u) =
        \<lparr> TabList = [''My profile'', ''Password'', ''Appearance'', ''Danger zone''],
          TabPanels = [UserInformation, ChangePassword, Appearance, DeleteAccount] \<rparr>)
   \<and> UserSettings_render None =
        \<lparr> TabList = [''My profile'', ''Password'', ''Appearance'', ''Danger zone''],
          TabPanels = [UserInformation, ChangePassword, Appearance, DeleteAccount] \<rparr>"
  by (simp add: UserSettings_render_def finalTabs_def tabsConfig_def)

text \<open>An administrator and an ordinary user.\<close>

theorem C10_witness:
  "is_superuser \<lparr>user_id = 1, email = ''admin@example.com'', full_name = None,
      is_superuser = True, is_active = True\<rparr>
   \<and> TabList (UserSettings_render (Some \<lparr>user_id = 1, email = ''admin@example.com'',
        full_name = None, is_superuser = True, is_active = True\<rparr>)) =
       [''My profile'', ''Password'', ''Appearance'']
   \<and> \<not> is_superuser \<lparr>user_id = 2, email = ''ada@example.com'', full_name = Some ''Ada'',
      is_superuser = False, is_active = True\<rparr>
   \<and> TabList (UserSettings_render (Some \<lparr>user_id = 2, email = ''ada@example.com'',
        full_name = Some ''Ada'', is_superuser = False, is_active = True\<rparr>)) =
       [''My profile'', ''Password'', ''Appearance'', ''Danger zone'']"
  using
    C10_settings_tabs [of "\<lparr>user_id = 1, email = ''admin@example.com'', full_name = None,
      is_superuser = True, is_active = True\<rparr>"]
    C10_settings_tabs [of "\<lparr>user_id = 2, email = ''ada@example.com'', full_name = Some ''Ada'',
      is_superuser = False, is_active = True\<rparr>"]
  by simp

end
